theory Spec2Isabelle
  imports Complex_Main
begin

section \<open>The bookkeeping service of app.py\<close>

text \<open>
  The service is one Python file: three tables (Transaction, Category, User) behind an
  SQLAlchemy session, four flask-restful resources and their request parsers.  The
  handlers are embedded as functions on an explicit session state.  The conventions:

  \<^item> Python \<open>str\<close> is \<open>string\<close>, over the 256 characters of \<open>char\<close>; a Python \<open>int\<close>
    is \<open>int\<close>; a Python \<open>float\<close> is a \<open>pyfloat\<close>: a finite double as the rational
    number it denotes, which is exact, or one of the three values that are no number.
  \<^item> A response is a pair of a JSON body and an HTTP status; a handler that returns
    only a body answers with status 200, as flask-restful does.
  \<^item> The calls into libraries (the request parser, the session, \<open>strptime\<close>,
    \<open>strftime\<close>, \<open>locale.currency\<close>, flask-bcrypt) are modelled by the definitions
    of the first subsections, each with the exceptions it raises on the values the
    handlers pass; the salt and the digest of bcrypt and the signing of a token are
    parameters.
  \<^item> An exception that no handler catches ends the request with status 500 and
    without a commit.
\<close>

subsection \<open>Responses\<close>

text \<open>
  A Python \<open>float\<close>.  \<open>Finite x\<close> is the double whose exact value is \<open>x\<close>;
  \<open>float('inf')\<close>, \<open>float('-inf')\<close> and \<open>float('nan')\<close> are what \<open>float\<close> makes of
  \<open>'inf'\<close>, \<open>'-inf'\<close> and \<open>'nan'\<close>, and what the JSON reader makes of \<open>1e999\<close> or
  \<open>NaN\<close>.
\<close>

datatype pyfloat = Finite rat | PInf | NInf | NaN

datatype json =
    JString string
  | JInt int
  | JFloat pyfloat
  | JObject "(string \<times> json) list"
  | JArray "json list"

type_synonym response = "json \<times> nat"

text \<open>\<open>return body\<close> without a status.\<close>

definition ok :: "json \<Rightarrow> response" where
  "ok body = (body, 200)"

definition message :: "string \<Rightarrow> json" where
  "message m = JObject [(''message'', JString m)]"

text \<open>
  The exceptions the handlers meet.  They catch one, the \<open>ValueError\<close> of \<open>strptime\<close>.
  Any other leaves the handler: the request is answered with status 500 (by
  flask-restful with the body below, by the debugger of \<open>app.run(debug=True)\<close> with its
  own page), and the session is removed with nothing committed.
\<close>

datatype exn = ValueError | OverflowError | IntegrityError

definition internal_server_error :: response where
  "internal_server_error = (message ''Internal Server Error'', 500)"

subsection \<open>Calendar dates: \<open>datetime.date\<close>, \<open>strptime\<close> and \<open>strftime\<close>\<close>

record date =
  year :: nat
  month :: nat
  day :: nat

definition is_leap :: "nat \<Rightarrow> bool" where
  "is_leap y = (y mod 4 = 0 \<and> (y mod 100 \<noteq> 0 \<or> y mod 400 = 0))"

definition days_in_month :: "nat \<Rightarrow> nat \<Rightarrow> nat" where
  "days_in_month y m =
     (if m = 2 then (if is_leap y then 29 else 28)
      else if m = 4 \<or> m = 6 \<or> m = 9 \<or> m = 11 then 30
      else 31)"

text \<open>
  \<open>datetime.date(y, m, d)\<close>: a \<open>ValueError\<close> (here \<open>None\<close>) unless
  \<open>MINYEAR \<le> y \<le> MAXYEAR\<close>, \<open>1 \<le> m \<le> 12\<close> and \<open>1 \<le> d \<le>\<close> the days of the month.
\<close>

definition date_new :: "nat \<Rightarrow> nat \<Rightarrow> nat \<Rightarrow> date option" where
  "date_new y m d =
     (if 1 \<le> y \<and> y \<le> 9999 \<and> 1 \<le> m \<and> m \<le> 12 \<and> 1 \<le> d \<and> d \<le> days_in_month y m
      then Some \<lparr>year = y, month = m, day = d\<rparr>
      else None)"

text \<open>Character classes of the regular expressions \<open>_strptime\<close> builds: \<open>\d\<close> and \<open>[a-b]\<close>.\<close>

definition in_range :: "char \<Rightarrow> char \<Rightarrow> char \<Rightarrow> bool" where
  "in_range lo hi c = ((of_char lo :: nat) \<le> of_char c \<and> (of_char c :: nat) \<le> of_char hi)"

definition is_digit :: "char \<Rightarrow> bool" where
  "is_digit c = in_range (CHR ''0'') (CHR ''9'') c"

definition digit_val :: "char \<Rightarrow> nat" where
  "digit_val c = of_char c - 48"

text \<open>\<open>int(s)\<close> on a string of digits, after the blanks \<open>int\<close> strips.\<close>

definition py_int :: "string \<Rightarrow> nat" where
  "py_int s = foldl (\<lambda>n c. 10 * n + digit_val c) 0 (filter (\<lambda>c. c \<noteq> CHR '' '') s)"

text \<open>
  A group of the pattern offers its alternatives in the order the regular expression
  lists them; each result is the text matched and the rest of the input.

  \<^verbatim>\<open>'Y': r"(?P<Y>\d\d\d\d)"\<close>
  \<^verbatim>\<open>'m': r"(?P<m>1[0-2]|0[1-9]|[1-9])"\<close>
  \<^verbatim>\<open>'d': r"(?P<d>3[0-1]|[1-2]\d|0[1-9]|[1-9]| [1-9])"\<close>
\<close>

definition two :: "(char \<Rightarrow> bool) \<Rightarrow> (char \<Rightarrow> bool) \<Rightarrow> string \<Rightarrow> (string \<times> string) list" where
  "two p q s = (case s of a # b # r \<Rightarrow> (if p a \<and> q b then [([a, b], r)] else []) | _ \<Rightarrow> [])"

definition one :: "(char \<Rightarrow> bool) \<Rightarrow> string \<Rightarrow> (string \<times> string) list" where
  "one p s = (case s of a # r \<Rightarrow> (if p a then [([a], r)] else []) | _ \<Rightarrow> [])"

definition re_Y :: "string \<Rightarrow> (string \<times> string) list" where
  "re_Y s =
     (case s of
        a # b # c # d # r \<Rightarrow>
          (if is_digit a \<and> is_digit b \<and> is_digit c \<and> is_digit d then [([a, b, c, d], r)] else [])
      | _ \<Rightarrow> [])"

definition re_m :: "string \<Rightarrow> (string \<times> string) list" where
  "re_m s =
     two (\<lambda>c. c = CHR ''1'') (in_range (CHR ''0'') (CHR ''2'')) s @
     two (\<lambda>c. c = CHR ''0'') (in_range (CHR ''1'') (CHR ''9'')) s @
     one (in_range (CHR ''1'') (CHR ''9'')) s"

definition re_d :: "string \<Rightarrow> (string \<times> string) list" where
  "re_d s =
     two (\<lambda>c. c = CHR ''3'') (in_range (CHR ''0'') (CHR ''1'')) s @
     two (in_range (CHR ''1'') (CHR ''2'')) is_digit s @
     two (\<lambda>c. c = CHR ''0'') (in_range (CHR ''1'') (CHR ''9'')) s @
     one (in_range (CHR ''1'') (CHR ''9'')) s @
     two (\<lambda>c. c = CHR '' '') (in_range (CHR ''1'') (CHR ''9'')) s"

definition lit :: "char \<Rightarrow> string \<Rightarrow> string list" where
  "lit x s = (case s of a # r \<Rightarrow> (if a = x then [r] else []) | [] \<Rightarrow> [])"

text \<open>
  \<open>re.match\<close> of the pattern for \<open>'%Y-%m-%d'\<close>: every way to match a prefix of the
  input, in backtracking order; the match \<open>re.match\<close> returns is the first.
\<close>

definition format_matches :: "string \<Rightarrow> (string \<times> string \<times> string \<times> string) list" where
  "format_matches s =
     concat (map (\<lambda>(y, r1).
       concat (map (\<lambda>r2.
         concat (map (\<lambda>(m, r3).
           concat (map (\<lambda>r4.
             map (\<lambda>(d, r5). (y, m, d, r5)) (re_d r4))
           (lit (CHR ''-'') r3)))
         (re_m r2)))
       (lit (CHR ''-'') r1)))
     (re_Y s))"

text \<open>
  \<open>datetime.datetime.strptime(date_str, '%Y-%m-%d').date()\<close>, with \<open>None\<close> for the
  \<open>ValueError\<close> the handlers catch: the input does not match the format, text remains
  after the match (``unconverted data remains''), or the numbers are no date.
\<close>

definition strptime_ymd :: "string \<Rightarrow> date option" where
  "strptime_ymd s =
     (case format_matches s of
        [] \<Rightarrow> None
      | (y, m, d, rest) # _ \<Rightarrow>
          (if rest \<noteq> [] then None else date_new (py_int y) (py_int m) (py_int d)))"

text \<open>
  \<open>d.strftime('%Y-%m-%d')\<close>.  CPython hands the format to \<open>strftime\<close> of the C library.
  There \<open>%Y\<close> is the year as a decimal number, which glibc prints with the digits the
  number has and no padding (the year 5 is printed \<open>5\<close>); \<open>%m\<close> and \<open>%d\<close> are printed on
  two digits.  \<open>digits_of n\<close> is \<open>str(n)\<close>.
\<close>

definition digit_char :: "nat \<Rightarrow> char" where
  "digit_char n = ''0123456789'' ! (n mod 10)"

fun digits_of :: "nat \<Rightarrow> string" where
  "digits_of n = (if n < 10 then [digit_char n] else digits_of (n div 10) @ [digit_char n])"

declare digits_of.simps [simp del]

definition pad2 :: "nat \<Rightarrow> string" where
  "pad2 n = [digit_char (n div 10), digit_char n]"

definition strftime_ymd :: "date \<Rightarrow> string" where
  "strftime_ymd d = digits_of (year d) @ ''-'' @ pad2 (month d) @ ''-'' @ pad2 (day d)"

subsection \<open>Tables and the session\<close>

text \<open>The three models of the source; \<open>id\<close> is the primary key of each.\<close>

record transaction =
  t_id :: int
  description :: string
  amount :: pyfloat
  category_id :: int
  date :: date

record category =
  c_id :: int
  name :: string

record user =
  u_id :: int
  username :: string
  password :: string

record db =
  transactions :: "transaction list"
  categories :: "category list"
  users :: "user list"

text \<open>\<open>db.create_all()\<close> on a new database file.\<close>

definition empty_db :: db where
  "empty_db = \<lparr>transactions = [], categories = [], users = []\<rparr>"

text \<open>
  The session of one request: \<open>stored\<close> is the database file, \<open>pending\<close> is what
  the session sees, its own uncommitted changes included.  \<open>commit\<close> writes the
  pending state to the file; when the request ends, Flask-SQLAlchemy removes the
  session and what was not committed is lost.
\<close>

record session =
  stored :: db
  pending :: db

definition begin_session :: "db \<Rightarrow> session" where
  "begin_session d = \<lparr>stored = d, pending = d\<rparr>"

definition commit :: "session \<Rightarrow> session" where
  "commit s = s\<lparr>stored := pending s\<rparr>"

definition remove_session :: "session \<Rightarrow> db" where
  "remove_session s = stored s"

text \<open>
  An integer primary key of SQLite: a new row gets 1 in an empty table and otherwise
  one more than the largest key of the table.
\<close>

definition next_id :: "int list \<Rightarrow> int" where
  "next_id ids = (if ids = [] then 1 else Max (set ids) + 1)"

text \<open>\<open>Model.query.get(id)\<close>, \<open>db.session.add\<close>, attribute assignment on a loaded
  object and \<open>db.session.delete\<close>, for each table the handlers use them on.\<close>

definition get_transaction :: "session \<Rightarrow> int \<Rightarrow> transaction option" where
  "get_transaction s i = find (\<lambda>t. t_id t = i) (transactions (pending s))"

definition add_transaction :: "string \<Rightarrow> pyfloat \<Rightarrow> int \<Rightarrow> date \<Rightarrow> session \<Rightarrow> session" where
  "add_transaction de am ca da s =
     s\<lparr>pending := (pending s)\<lparr>transactions := transactions (pending s) @
        [\<lparr>t_id = next_id (map t_id (transactions (pending s))), description = de, amount = am,
          category_id = ca, date = da\<rparr>]\<rparr>\<rparr>"

definition set_transaction :: "transaction \<Rightarrow> session \<Rightarrow> session" where
  "set_transaction t s =
     s\<lparr>pending := (pending s)\<lparr>transactions :=
        map (\<lambda>r. if t_id r = t_id t then t else r) (transactions (pending s))\<rparr>\<rparr>"

definition delete_transaction :: "transaction \<Rightarrow> session \<Rightarrow> session" where
  "delete_transaction t s =
     s\<lparr>pending := (pending s)\<lparr>transactions :=
        filter (\<lambda>r. t_id r \<noteq> t_id t) (transactions (pending s))\<rparr>\<rparr>"

text \<open>
  What the INSERT or UPDATE of a transaction does with the two numbers a body gives, when
  \<open>db.session.commit()\<close> flushes the row.  The SQLite driver binds a Python \<open>int\<close> as a
  64-bit integer and raises \<open>OverflowError\<close> for any other (``Python int too large to
  convert to SQLite INTEGER''), before the statement runs.  It binds \<open>nan\<close> as NULL, which
  the column \<open>amount\<close>, declared \<open>nullable=False\<close>, refuses with an \<open>IntegrityError\<close>.
  Every other float, the infinities included, is stored as it is.
\<close>

definition sqlite_integer :: "int \<Rightarrow> bool" where
  "sqlite_integer i = (- (2 ^ 63) \<le> i \<and> i < 2 ^ 63)"

definition flush_transaction :: "pyfloat \<Rightarrow> int \<Rightarrow> exn option" where
  "flush_transaction am ca =
     (if \<not> sqlite_integer ca then Some OverflowError
      else if am = NaN then Some IntegrityError
      else None)"

definition get_category :: "session \<Rightarrow> int \<Rightarrow> category option" where
  "get_category s i = find (\<lambda>c. c_id c = i) (categories (pending s))"

definition add_category :: "string \<Rightarrow> session \<Rightarrow> session" where
  "add_category n s =
     s\<lparr>pending := (pending s)\<lparr>categories := categories (pending s) @
        [\<lparr>c_id = next_id (map c_id (categories (pending s))), name = n\<rparr>]\<rparr>\<rparr>"

definition set_category :: "category \<Rightarrow> session \<Rightarrow> session" where
  "set_category c s =
     s\<lparr>pending := (pending s)\<lparr>categories :=
        map (\<lambda>r. if c_id r = c_id c then c else r) (categories (pending s))\<rparr>\<rparr>"

definition delete_category :: "category \<Rightarrow> session \<Rightarrow> session" where
  "delete_category c s =
     s\<lparr>pending := (pending s)\<lparr>categories :=
        filter (\<lambda>r. c_id r \<noteq> c_id c) (categories (pending s))\<rparr>\<rparr>"

text \<open>\<open>User.query.filter_by(username=username).first()\<close>\<close>

definition first_user :: "session \<Rightarrow> string \<Rightarrow> user option" where
  "first_user s n = find (\<lambda>u. username u = n) (users (pending s))"

definition add_user :: "string \<Rightarrow> string \<Rightarrow> session \<Rightarrow> session" where
  "add_user n p s =
     s\<lparr>pending := (pending s)\<lparr>users := users (pending s) @
        [\<lparr>u_id = next_id (map u_id (users (pending s))), username = n, password = p\<rparr>]\<rparr>\<rparr>"

text \<open>
  A request runs its handler in a new session and removes the session afterwards.
  \<open>@jwt_required()\<close> answers for the handler when the token check fails: \<open>auth\<close> is
  \<open>None\<close> for a request whose token verifies and the library's response otherwise.
\<close>

definition request :: "(session \<Rightarrow> response \<times> session) \<Rightarrow> db \<Rightarrow> response \<times> db" where
  "request h d = (case h (begin_session d) of (r, s) \<Rightarrow> (r, remove_session s))"

definition jwt_required ::
  "response option \<Rightarrow> (session \<Rightarrow> response \<times> session) \<Rightarrow> session \<Rightarrow> response \<times> session" where
  "jwt_required auth h s = (case auth of Some r \<Rightarrow> (r, s) | None \<Rightarrow> h s)"

subsection \<open>Request parsers\<close>

text \<open>
  A body gives each argument of its parser or not: \<open>None\<close> is an argument that is
  absent or that the argument's type refuses.  \<open>parse_args\<close> goes through the
  arguments in the order they were added and aborts with 400 and the argument's help text
  at the first one it cannot produce.  \<open>required=True\<close> asks for nothing more, so an
  empty string is an argument like any other.
\<close>

record transaction_body =
  body_description :: "string option"
  body_amount :: "pyfloat option"
  body_category_id :: "int option"
  body_date :: "string option"

record category_body =
  body_name :: "string option"

record credentials_body =
  body_username :: "string option"
  body_password :: "string option"

definition abort_400 :: "string \<Rightarrow> string \<Rightarrow> response" where
  "abort_400 arg help = (JObject [(''message'', JObject [(arg, JString help)])], 400)"

definition transaction_parser ::
  "transaction_body \<Rightarrow> response + string \<times> pyfloat \<times> int \<times> string" where
  "transaction_parser b =
     (case body_description b of
        None \<Rightarrow> Inl (abort_400 ''description'' ''Description is required'')
      | Some de \<Rightarrow>
     (case body_amount b of
        None \<Rightarrow> Inl (abort_400 ''amount'' ''Amount is required'')
      | Some am \<Rightarrow>
     (case body_category_id b of
        None \<Rightarrow> Inl (abort_400 ''category_id'' ''Category ID is required'')
      | Some ca \<Rightarrow>
     (case body_date b of
        None \<Rightarrow> Inl (abort_400 ''date'' ''Date is required (format: YYYY-MM-DD)'')
      | Some da \<Rightarrow> Inr (de, am, ca, da)))))"

definition category_parser :: "category_body \<Rightarrow> response + string" where
  "category_parser b =
     (case body_name b of
        None \<Rightarrow> Inl (abort_400 ''name'' ''Name is required'')
      | Some n \<Rightarrow> Inr n)"

definition register_parser :: "credentials_body \<Rightarrow> response + string \<times> string" where
  "register_parser b =
     (case body_username b of
        None \<Rightarrow> Inl (abort_400 ''username'' ''Username is required'')
      | Some n \<Rightarrow>
     (case body_password b of
        None \<Rightarrow> Inl (abort_400 ''password'' ''Password is required'')
      | Some p \<Rightarrow> Inr (n, p)))"

definition login_parser :: "credentials_body \<Rightarrow> response + string \<times> string" where
  "login_parser b =
     (case body_username b of
        None \<Rightarrow> Inl (abort_400 ''username'' ''Username is required'')
      | Some n \<Rightarrow>
     (case body_password b of
        None \<Rightarrow> Inl (abort_400 ''password'' ''Password is required'')
      | Some p \<Rightarrow> Inr (n, p)))"

subsection \<open>\<open>locale.currency\<close>\<close>

text \<open>
  The monetary conventions \<open>localeconv()\<close> returns, as far as \<open>locale.currency\<close>
  reads them for \<open>symbol=True\<close> and \<open>international=False\<close>.
\<close>

record localeconv =
  currency_symbol :: string
  mon_decimal_point :: string
  mon_thousands_sep :: string
  mon_grouping :: "nat list"
  positive_sign :: string
  negative_sign :: string
  frac_digits :: nat
  p_cs_precedes :: nat
  p_sep_by_space :: nat
  n_cs_precedes :: nat
  n_sep_by_space :: nat
  p_sign_posn :: nat
  n_sign_posn :: nat

text \<open>
  Modelled from the spec: the monetary table of the \<open>id_ID\<close> locale that
  \<open>locale.setlocale(locale.LC_ALL, 'id_ID')\<close> selects.  The table is data of the C
  library, not of app.py; these are the values under which 15000.0 is displayed as
  \<open>Rp15.000,00\<close>: the symbol \<open>Rp\<close> before the number and not separated from it, groups of
  three digits parted by a dot, a decimal comma, two decimals.
\<close>

definition id_ID :: localeconv where
  "id_ID = \<lparr>currency_symbol = ''Rp'', mon_decimal_point = '','', mon_thousands_sep = ''.'',
     mon_grouping = [3, 3, 0], positive_sign = [], negative_sign = ''-'', frac_digits = 2,
     p_cs_precedes = 1, p_sep_by_space = 0, n_cs_precedes = 1, n_sep_by_space = 0,
     p_sign_posn = 1, n_sign_posn = 1\<rparr>"

text \<open>
  \<open>f'{x:.{digits}f}'\<close> for \<open>x \<ge> 0\<close>, as the text before and the text after the decimal
  point: the correctly rounded decimal with \<open>digits\<close> decimals, a tie going to the even
  neighbour.
\<close>

definition round_half_even :: "rat \<Rightarrow> int" where
  "round_half_even x =
     (let f = \<lfloor>x\<rfloor>; r = x - of_int f
      in if r < 1 / 2 then f else if 1 / 2 < r then f + 1 else if even f then f else f + 1)"

primrec last_digits :: "nat \<Rightarrow> nat \<Rightarrow> string" where
  "last_digits 0 n = []"
| "last_digits (Suc k) n = last_digits k (n div 10) @ [digit_char n]"

definition format_fixed :: "nat \<Rightarrow> rat \<Rightarrow> string \<times> string" where
  "format_fixed digits x =
     (let n = nat (round_half_even (x * 10 ^ digits))
      in (digits_of (n div 10 ^ digits), last_digits digits n))"

text \<open>
  \<open>_group\<close> on a string of digits: the groups from the right, their sizes taken from
  \<open>_grouping_intervals\<close> (\<open>CHAR_MAX\<close> ends the grouping, 0 repeats the interval before
  it, here \<open>prev\<close>).  The result lists the rightmost group first.
\<close>

function group_digits :: "nat list \<Rightarrow> nat \<Rightarrow> string \<Rightarrow> string list" where
  "group_digits gs prev s =
     (if s = [] then []
      else case gs of
        [] \<Rightarrow> [s]
      | g # gs' \<Rightarrow>
          if g = 127 then [s]
          else if g = 0 then
            (if prev = 0 then [s]
             else drop (length s - prev) s # group_digits gs prev (take (length s - prev) s))
          else drop (length s - g) s # group_digits gs' g (take (length s - g) s))"
  by pat_completeness auto
termination
  by (relation "measure (\<lambda>(gs, prev, s). length s)") auto

declare group_digits.simps [simp del]

fun join :: "string \<Rightarrow> string list \<Rightarrow> string" where
  "join sep [] = []"
| "join sep [x] = x"
| "join sep (x # y # ys) = x @ sep @ join sep (y # ys)"

text \<open>
  \<open>_localize(f'{abs(val):.{digits}f}', grouping=True, monetary=True)\<close>: the digits before
  the decimal point are grouped, and the point is replaced by the monetary one.  A float
  that is no number is formatted \<open>inf\<close> or \<open>nan\<close>, in which there is nothing to group.
\<close>

definition localize :: "localeconv \<Rightarrow> pyfloat \<Rightarrow> string" where
  "localize conv val =
     (case val of
        Finite x \<Rightarrow>
          (let digits = frac_digits conv;
               (whole, decimals) = format_fixed digits \<bar>x\<bar>;
               grouped = (if mon_grouping conv = [] then whole
                          else join (mon_thousands_sep conv)
                                 (rev (group_digits (mon_grouping conv) 0 whole)))
           in if digits = 0 then grouped else grouped @ mon_decimal_point conv @ decimals)
      | NaN \<Rightarrow> ''nan''
      | _ \<Rightarrow> ''inf'')"

text \<open>\<open>val < 0\<close>\<close>

definition negative :: "pyfloat \<Rightarrow> bool" where
  "negative val = (case val of Finite x \<Rightarrow> x < 0 | NInf \<Rightarrow> True | _ \<Rightarrow> False)"

text \<open>
  \<open>locale.currency(val, grouping=True)\<close>.  The number is built from \<open>abs(val)\<close>; the
  symbol and the sign are placed by the table's entries for the sign of \<open>val\<close>.  The
  source marks the ends of the number with \<open><\<close> and \<open>>\<close> and puts the sign there for
  the sign positions 3 and 4; \<open>l\<close> and \<open>r\<close> below are those two places.  The refusal of
  the C locale (\<open>frac_digits = 127\<close>) is left out: the service selects \<open>id_ID\<close> when it
  starts.
\<close>

definition currency :: "localeconv \<Rightarrow> pyfloat \<Rightarrow> string" where
  "currency conv val =
     (let number = localize conv val;
          smb = currency_symbol conv;
          precedes = (if negative val then n_cs_precedes conv else p_cs_precedes conv);
          separated = (if negative val then n_sep_by_space conv else p_sep_by_space conv);
          sign_pos = (if negative val then n_sign_posn conv else p_sign_posn conv);
          sign = (if negative val then negative_sign conv else positive_sign conv);
          space = (if separated \<noteq> 0 then [CHR '' ''] else []);
          s = (\<lambda>l r. if precedes \<noteq> 0 then smb @ space @ l @ number @ r
                      else l @ number @ r @ space @ smb)
      in if sign_pos = 0 then ''('' @ s [] [] @ '')''
         else if sign_pos = 1 then sign @ s [] []
         else if sign_pos = 2 then s [] [] @ sign
         else if sign_pos = 3 then s sign []
         else if sign_pos = 4 then s [] sign
         else sign @ s [] [])"

subsection \<open>TransactionResource\<close>

definition TransactionResource_get ::
  "response option \<Rightarrow> int option \<Rightarrow> session \<Rightarrow> response \<times> session" where
  "TransactionResource_get auth transaction_id =
     jwt_required auth (\<lambda>s.
       let listing =
         (ok (JArray (map (\<lambda>t. JObject
            [(''id'', JInt (t_id t)),
             (''description'', JString (description t)),
             (''amount'', JString (currency id_ID (amount t))),
             (''category_id'', JInt (category_id t)),
             (''date'', JString (strftime_ymd (date t)))]) (transactions (pending s)))), s)
       in case transaction_id of
            None \<Rightarrow> listing
          | Some i \<Rightarrow>
              if i \<noteq> 0 then
                (case get_transaction s i of
                   Some t \<Rightarrow>
                     (ok (JObject
                        [(''id'', JInt (t_id t)),
                         (''description'', JString (description t)),
                         (''amount'', JFloat (amount t)),
                         (''category_id'', JInt (category_id t)),
                         (''date'', JString (strftime_ymd (date t)))]), s)
                 | None \<Rightarrow> ((message ''Transaction not found'', 404), s))
              else listing)"

definition TransactionResource_post ::
  "response option \<Rightarrow> transaction_body \<Rightarrow> session \<Rightarrow> response \<times> session" where
  "TransactionResource_post auth body =
     jwt_required auth (\<lambda>s.
       case transaction_parser body of
         Inl r \<Rightarrow> (r, s)
       | Inr (de, am, ca, date_str) \<Rightarrow>
           (case strptime_ymd date_str of
              None \<Rightarrow> ((message ''Invalid date format. Please use YYYY-MM-DD format.'', 400), s)
            | Some da \<Rightarrow>
                (case flush_transaction am ca of
                   Some e \<Rightarrow> (internal_server_error, add_transaction de am ca da s)
                 | None \<Rightarrow>
                     ((message ''Transaction created successfully'', 201),
                      commit (add_transaction de am ca da s)))))"

definition TransactionResource_put ::
  "response option \<Rightarrow> int \<Rightarrow> transaction_body \<Rightarrow> session \<Rightarrow> response \<times> session" where
  "TransactionResource_put auth transaction_id body =
     jwt_required auth (\<lambda>s.
       case get_transaction s transaction_id of
         None \<Rightarrow> ((message ''Transaction not found'', 404), s)
       | Some t \<Rightarrow>
           (case transaction_parser body of
              Inl r \<Rightarrow> (r, s)
            | Inr (de, am, ca, date_str) \<Rightarrow>
                let t1 = t\<lparr>description := de\<rparr>;
                    t2 = t1\<lparr>amount := am\<rparr>;
                    t3 = t2\<lparr>category_id := ca\<rparr>;
                    s3 = set_transaction t3 s
                in (case strptime_ymd date_str of
                      None \<Rightarrow>
                        ((message ''Invalid date format. Please use YYYY-MM-DD format.'', 400), s3)
                    | Some da \<Rightarrow>
                        (case flush_transaction am ca of
                           Some e \<Rightarrow>
                             (internal_server_error, set_transaction (t3\<lparr>date := da\<rparr>) s3)
                         | None \<Rightarrow>
                             (ok (message ''Transaction updated successfully''),
                              commit (set_transaction (t3\<lparr>date := da\<rparr>) s3))))))"

definition TransactionResource_delete ::
  "response option \<Rightarrow> int \<Rightarrow> session \<Rightarrow> response \<times> session" where
  "TransactionResource_delete auth transaction_id =
     jwt_required auth (\<lambda>s.
       case get_transaction s transaction_id of
         None \<Rightarrow> ((message ''Transaction not found'', 404), s)
       | Some t \<Rightarrow>
           (ok (message ''Transaction deleted successfully''), commit (delete_transaction t s)))"

subsection \<open>CategoryResource\<close>

definition CategoryResource_get ::
  "response option \<Rightarrow> int option \<Rightarrow> session \<Rightarrow> response \<times> session" where
  "CategoryResource_get auth category_id' =
     jwt_required auth (\<lambda>s.
       let listing =
         (ok (JArray (map (\<lambda>c. JObject [(''id'', JInt (c_id c)), (''name'', JString (name c))])
            (categories (pending s)))), s)
       in case category_id' of
            None \<Rightarrow> listing
          | Some i \<Rightarrow>
              if i \<noteq> 0 then
                (case get_category s i of
                   Some c \<Rightarrow> (ok (JObject [(''id'', JInt (c_id c)), (''name'', JString (name c))]), s)
                 | None \<Rightarrow> ((message ''Category not found'', 404), s))
              else listing)"

definition CategoryResource_post ::
  "response option \<Rightarrow> category_body \<Rightarrow> session \<Rightarrow> response \<times> session" where
  "CategoryResource_post auth body =
     jwt_required auth (\<lambda>s.
       case category_parser body of
         Inl r \<Rightarrow> (r, s)
       | Inr n \<Rightarrow> ((message ''Category created successfully'', 201), commit (add_category n s)))"

definition CategoryResource_put ::
  "response option \<Rightarrow> int \<Rightarrow> category_body \<Rightarrow> session \<Rightarrow> response \<times> session" where
  "CategoryResource_put auth category_id' body =
     jwt_required auth (\<lambda>s.
       case get_category s category_id' of
         None \<Rightarrow> ((message ''Category not found'', 404), s)
       | Some c \<Rightarrow>
           (case category_parser body of
              Inl r \<Rightarrow> (r, s)
            | Inr n \<Rightarrow>
                (ok (message ''Category updated successfully''),
                 commit (set_category (c\<lparr>name := n\<rparr>) s))))"

definition CategoryResource_delete ::
  "response option \<Rightarrow> int \<Rightarrow> session \<Rightarrow> response \<times> session" where
  "CategoryResource_delete auth category_id' =
     jwt_required auth (\<lambda>s.
       case get_category s category_id' of
         None \<Rightarrow> ((message ''Category not found'', 404), s)
       | Some c \<Rightarrow>
           (ok (message ''Category deleted successfully''), commit (delete_category c s)))"

subsection \<open>RegisterResource and LoginResource\<close>

text \<open>
  What bcrypt and flask-jwt-extended contribute during one request: the 22 characters of
  the salt that \<open>bcrypt.gensalt\<close> draws, the digest bcrypt computes from a password and
  the 29 characters of a salt, and the token signed for an identity.  The digest is
  where bcrypt raises: bcrypt 5 refuses a password of more than 72 bytes with a
  \<open>ValueError\<close> where older versions cut it off, and every version refuses a salt it
  cannot read.
\<close>

record auth_lib =
  salt :: string
  digest :: "string \<Rightarrow> string \<Rightarrow> exn + string"
  create_access_token :: "int \<Rightarrow> string"

text \<open>
  \<open>bcrypt.gensalt(rounds=12, prefix=b'2b')\<close>, with the rounds and the prefix flask-bcrypt
  passes by default, and \<open>bcrypt.hashpw(password, salt)\<close>, which reads the first 29
  characters of \<open>salt\<close> and returns them followed by the digest.
\<close>

definition gensalt :: "auth_lib \<Rightarrow> string" where
  "gensalt lib = ''$2b$12$'' @ salt lib"

definition hashpw :: "auth_lib \<Rightarrow> string \<Rightarrow> string \<Rightarrow> exn + string" where
  "hashpw lib password' salt' =
     (case digest lib password' (take 29 salt') of
        Inl e \<Rightarrow> Inl e
      | Inr dg \<Rightarrow> Inr (take 29 salt' @ dg))"

text \<open>
  The two functions of flask-bcrypt.

  \<^verbatim>\<open>def generate_password_hash(self, password, rounds=None, prefix=None):\<close>
  \<^verbatim>\<open>    if not password:\<close>
  \<^verbatim>\<open>        raise ValueError('Password must be non-empty.')\<close>
  \<^verbatim>\<open>    ...\<close>
  \<^verbatim>\<open>    salt = bcrypt.gensalt(rounds=rounds, prefix=prefix)\<close>
  \<^verbatim>\<open>    return bcrypt.hashpw(password, salt)\<close>

  \<^verbatim>\<open>def check_password_hash(self, pw_hash, password):\<close>
  \<^verbatim>\<open>    ...\<close>
  \<^verbatim>\<open>    return hmac.compare_digest(bcrypt.hashpw(password, pw_hash), pw_hash)\<close>
\<close>

definition generate_password_hash :: "auth_lib \<Rightarrow> string \<Rightarrow> exn + string" where
  "generate_password_hash lib password' =
     (if password' = [] then Inl ValueError else hashpw lib password' (gensalt lib))"

definition check_password_hash :: "auth_lib \<Rightarrow> string \<Rightarrow> string \<Rightarrow> exn + bool" where
  "check_password_hash lib pw_hash password' =
     (case hashpw lib password' pw_hash of
        Inl e \<Rightarrow> Inl e
      | Inr h \<Rightarrow> Inr (h = pw_hash))"

definition RegisterResource_post ::
  "auth_lib \<Rightarrow> credentials_body \<Rightarrow> session \<Rightarrow> response \<times> session" where
  "RegisterResource_post lib body s =
     (case register_parser body of
        Inl r \<Rightarrow> (r, s)
      | Inr (username', password') \<Rightarrow>
          (case first_user s username' of
             Some existing_user \<Rightarrow> ((message ''Username already exists'', 400), s)
           | None \<Rightarrow>
               (case generate_password_hash lib password' of
                  Inl e \<Rightarrow> (internal_server_error, s)
                | Inr hashed_password \<Rightarrow>
                    ((message ''User registered successfully'', 201),
                     commit (add_user username' hashed_password s)))))"

definition LoginResource_post ::
  "auth_lib \<Rightarrow> credentials_body \<Rightarrow> session \<Rightarrow> response \<times> session" where
  "LoginResource_post lib body s =
     (case login_parser body of
        Inl r \<Rightarrow> (r, s)
      | Inr (username', password') \<Rightarrow>
          (case first_user s username' of
             None \<Rightarrow> ((message ''Invalid username or password'', 401), s)
           | Some user \<Rightarrow>
               (case check_password_hash lib (password user) password' of
                  Inl e \<Rightarrow> (internal_server_error, s)
                | Inr matches \<Rightarrow>
                    if \<not> matches
                    then ((message ''Invalid username or password'', 401), s)
                    else ((JObject [(''access_token'',
                             JString (create_access_token lib (u_id user)))], 200), s))))"

subsection \<open>Routes\<close>

text \<open>
  \<^verbatim>\<open>api.add_resource(CategoryResource, '/categories', '/categories/<int:category_id>')\<close>
  \<^verbatim>\<open>api.add_resource(TransactionResource, '/transactions', '/transactions/<int:transaction_id>')\<close>
  \<^verbatim>\<open>api.add_resource(RegisterResource, '/register')\<close>
  \<^verbatim>\<open>api.add_resource(LoginResource, '/login')\<close>

  Each route runs its handler as one request on the stored database and returns the
  response and the database the request leaves behind.
\<close>

definition GET_transactions :: "response option \<Rightarrow> db \<Rightarrow> response \<times> db" where
  "GET_transactions auth = request (TransactionResource_get auth None)"

definition GET_transaction :: "response option \<Rightarrow> int \<Rightarrow> db \<Rightarrow> response \<times> db" where
  "GET_transaction auth i = request (TransactionResource_get auth (Some i))"

definition POST_transactions :: "response option \<Rightarrow> transaction_body \<Rightarrow> db \<Rightarrow> response \<times> db" where
  "POST_transactions auth body = request (TransactionResource_post auth body)"

definition PUT_transaction ::
  "response option \<Rightarrow> int \<Rightarrow> transaction_body \<Rightarrow> db \<Rightarrow> response \<times> db" where
  "PUT_transaction auth i body = request (TransactionResource_put auth i body)"

definition DELETE_transaction :: "response option \<Rightarrow> int \<Rightarrow> db \<Rightarrow> response \<times> db" where
  "DELETE_transaction auth i = request (TransactionResource_delete auth i)"

definition GET_categories :: "response option \<Rightarrow> db \<Rightarrow> response \<times> db" where
  "GET_categories auth = request (CategoryResource_get auth None)"

definition GET_category :: "response option \<Rightarrow> int \<Rightarrow> db \<Rightarrow> response \<times> db" where
  "GET_category auth i = request (CategoryResource_get auth (Some i))"

definition POST_categories :: "response option \<Rightarrow> category_body \<Rightarrow> db \<Rightarrow> response \<times> db" where
  "POST_categories auth body = request (CategoryResource_post auth body)"

definition PUT_category :: "response option \<Rightarrow> int \<Rightarrow> category_body \<Rightarrow> db \<Rightarrow> response \<times> db" where
  "PUT_category auth i body = request (CategoryResource_put auth i body)"

definition DELETE_category :: "response option \<Rightarrow> int \<Rightarrow> db \<Rightarrow> response \<times> db" where
  "DELETE_category auth i = request (CategoryResource_delete auth i)"

definition POST_register :: "auth_lib \<Rightarrow> credentials_body \<Rightarrow> db \<Rightarrow> response \<times> db" where
  "POST_register lib body = request (RegisterResource_post lib body)"

definition POST_login :: "auth_lib \<Rightarrow> credentials_body \<Rightarrow> db \<Rightarrow> response \<times> db" where
  "POST_login lib body = request (LoginResource_post lib body)"

text \<open>The requests the service answers, and the database after a sequence of them.\<close>

datatype api_request =
    Get_transactions "response option"
  | Get_transaction "response option" int
  | Post_transactions "response option" transaction_body
  | Put_transaction "response option" int transaction_body
  | Delete_transaction "response option" int
  | Get_categories "response option"
  | Get_category "response option" int
  | Post_categories "response option" category_body
  | Put_category "response option" int category_body
  | Delete_category "response option" int
  | Post_register auth_lib credentials_body
  | Post_login auth_lib credentials_body

fun api :: "api_request \<Rightarrow> db \<Rightarrow> response \<times> db" where
  "api (Get_transactions auth) = GET_transactions auth"
| "api (Get_transaction auth i) = GET_transaction auth i"
| "api (Post_transactions auth body) = POST_transactions auth body"
| "api (Put_transaction auth i body) = PUT_transaction auth i body"
| "api (Delete_transaction auth i) = DELETE_transaction auth i"
| "api (Get_categories auth) = GET_categories auth"
| "api (Get_category auth i) = GET_category auth i"
| "api (Post_categories auth body) = POST_categories auth body"
| "api (Put_category auth i body) = PUT_category auth i body"
| "api (Delete_category auth i) = DELETE_category auth i"
| "api (Post_register lib body) = POST_register lib body"
| "api (Post_login lib body) = POST_login lib body"

fun run :: "api_request list \<Rightarrow> db \<Rightarrow> db" where
  "run [] d = d"
| "run (r # rs) d = run rs (snd (api r d))"

text \<open>The category name a request carries, if it is a request that writes one.\<close>

fun name_given :: "api_request \<Rightarrow> string option" where
  "name_given (Post_categories auth body) = body_name body"
| "name_given (Put_category auth i body) = body_name body"
| "name_given _ = None"

subsection \<open>Notions of the specification\<close>

text \<open>
  The keys of a table as the database hands them out: positive, and no key twice.
\<close>

definition wf_ids :: "int list \<Rightarrow> bool" where
  "wf_ids ids = (list_all (\<lambda>i. 0 < i) ids \<and> distinct ids)"

definition wf_db :: "db \<Rightarrow> bool" where
  "wf_db d =
     (wf_ids (map t_id (transactions d)) \<and> wf_ids (map c_id (categories d)) \<and>
      wf_ids (map u_id (users d)))"




text \<open>A string of digits and the number it writes.\<close>

definition digits :: "string \<Rightarrow> bool" where
  "digits s = list_all is_digit s"

definition number :: "string \<Rightarrow> nat" where
  "number s = foldl (\<lambda>n c. 10 * n + digit_val c) 0 s"



text \<open>
  The date strings the service takes, which are more than those in YYYY-MM-DD form: three
  fields parted by two hyphens; the year is written with four digits, the month with one
  or two digits, the day with one or two digits or with a blank before one digit; and
  the three numbers name a day of the calendar.  \<open>date_text\<close> is that day.
\<close>

fun split_on :: "char \<Rightarrow> string \<Rightarrow> string list" where
  "split_on sep [] = [[]]"
| "split_on sep (c # s) =
     (if c = sep then [] # split_on sep s
      else (case split_on sep s of x # xs \<Rightarrow> (c # x) # xs | [] \<Rightarrow> [[c]]))"



text \<open>
  An amount in Rupiah as the listing writes it, and the number it denotes: an optional
  minus sign, the symbol \<open>Rp\<close>, the whole part in groups of digits parted by dots (the
  first group of one to three digits, every other of three), a comma, and two decimals.
  \<open>rupiah\<close> reads such a string and is \<open>None\<close> on any other.
\<close>

definition thousands :: "string list \<Rightarrow> bool" where
  "thousands gs =
     (case gs of
        [] \<Rightarrow> False
      | g # rest \<Rightarrow>
          g \<noteq> [] \<and> length g \<le> 3 \<and> digits g \<and> list_all (\<lambda>h. length h = 3 \<and> digits h) rest)"

definition rupiah_unsigned :: "string \<Rightarrow> rat option" where
  "rupiah_unsigned s =
     (case s of
        a # b # body \<Rightarrow>
          (case split_on (CHR '','') body of
             [whole, cents] \<Rightarrow>
               if a = CHR ''R'' \<and> b = CHR ''p'' \<and> thousands (split_on (CHR ''.'') whole) \<and>
                  length cents = 2 \<and> digits cents
               then Some (of_nat (number (concat (split_on (CHR ''.'') whole))) +
                          of_nat (number cents) / 100)
               else None
           | _ \<Rightarrow> None)
      | _ \<Rightarrow> None)"

definition rupiah :: "string \<Rightarrow> rat option" where
  "rupiah s =
     (case s of
        c # r \<Rightarrow> if c = CHR ''-'' then map_option uminus (rupiah_unsigned r) else rupiah_unsigned s
      | [] \<Rightarrow> None)"





section \<open>Properties\<close>

subsection \<open>Digits\<close>

lemma of_char_digit_char: "n < 10 \<Longrightarrow> (of_char (digit_char n) :: nat) = 48 + n"
proof -
  assume "n < 10"
  then have "n \<in> {0, 1, 2, 3, 4, 5, 6, 7, 8, 9}"
    by auto
  then show ?thesis
    by (auto simp: digit_char_def)
qed


lemma is_digit_digit_char: "n < 10 \<Longrightarrow> is_digit (digit_char n)"
  by (simp add: is_digit_def in_range_def of_char_digit_char)



lemma digit_char_eq_iff:
  "n < 10 \<Longrightarrow> digit_char n = c \<longleftrightarrow> (of_char c :: nat) = 48 + n"
  by (metis of_char_digit_char of_char_eq_iff)

lemma digit_char_not_blank: "n < 10 \<Longrightarrow> digit_char n \<noteq> CHR '' ''"
  by (simp add: digit_char_eq_iff)







subsection \<open>The calendar\<close>






subsection \<open>Numbers and fields\<close>












subsection \<open>What the pattern of \<open>strptime\<close> matches\<close>



















subsection \<open>Printing a date\<close>









subsection \<open>Keys and look-ups\<close>

lemmas session_defs =
  request_def begin_session_def remove_session_def commit_def jwt_required_def ok_def message_def

lemma next_id_fresh:
  assumes "list_all (\<lambda>i. 0 < i) ids"
  shows "0 < next_id ids" and "next_id ids \<notin> set ids"
proof -
  show "0 < next_id ids"
  proof (cases "ids = []")
    case True
    then show ?thesis by (simp add: next_id_def)
  next
    case False
    then have "Max (set ids) \<in> set ids" by simp
    with assms have "0 < Max (set ids)" by (simp add: list_all_iff)
    with False show ?thesis by (simp add: next_id_def)
  qed
  show "next_id ids \<notin> set ids"
  proof
    assume m: "next_id ids \<in> set ids"
    then have ne: "ids \<noteq> []" by auto
    from m have "next_id ids \<le> Max (set ids)" by simp
    with ne show False by (simp add: next_id_def)
  qed
qed

lemma wf_ids_snoc: "wf_ids ids \<Longrightarrow> wf_ids (ids @ [next_id ids])"
  using next_id_fresh [of ids] by (simp add: wf_ids_def)

lemma wf_ids_filter: "wf_ids (map f xs) \<Longrightarrow> wf_ids (map f (filter P xs))"
  by (simp add: wf_ids_def list_all_iff distinct_map_filter)



lemma find_present: "k \<in> set (map f xs) \<Longrightarrow> \<exists>x. find (\<lambda>x. f x = k) xs = Some x \<and> f x = k \<and> x \<in> set xs"
  by (induction xs) auto

lemma find_member:
  "distinct (map f xs) \<Longrightarrow> x \<in> set xs \<Longrightarrow> find (\<lambda>y. f y = f x) xs = Some x"
  by (induction xs) (auto simp: rev_image_eqI)

lemma find_filter_removed: "find (\<lambda>x. f x = k) (filter (\<lambda>x. f x \<noteq> k) xs) = None"
  by (induction xs) auto

subsection \<open>The identifier 0\<close>

text \<open>
  C10.  A GET of \<open>/transactions/0\<close> or of \<open>/categories/0\<close> is answered like the GET of
  the collection: with status 200 and the list of all rows (the amounts of the
  transactions formatted as currency), never with 404, because the handlers test the
  identifier for truth and 0 is false.
\<close>

theorem get_zero_is_listing:
  "GET_transaction None 0 d =
     ((JArray (map (\<lambda>t. JObject
        [(''id'', JInt (t_id t)),
         (''description'', JString (description t)),
         (''amount'', JString (currency id_ID (amount t))),
         (''category_id'', JInt (category_id t)),
         (''date'', JString (strftime_ymd (date t)))]) (transactions d)), 200), d) \<and>
   GET_transaction None 0 d = GET_transactions None d \<and>
   GET_category None 0 d =
     ((JArray (map (\<lambda>c. JObject [(''id'', JInt (c_id c)), (''name'', JString (name c))])
        (categories d)), 200), d) \<and>
   GET_category None 0 d = GET_categories None d"
  by (simp add: GET_transaction_def GET_transactions_def GET_category_def GET_categories_def
      TransactionResource_get_def CategoryResource_get_def session_defs)


subsection \<open>Creating a transaction\<close>








subsection \<open>Creating a transaction and reading it back\<close>




subsection \<open>Dates the service refuses\<close>




subsection \<open>The category of a new transaction\<close>




subsection \<open>Updating a transaction\<close>



subsection \<open>Deleting\<close>

text \<open>
  C6.  A DELETE of the key of a stored transaction answers 200 and removes the row with
  that key; the same DELETE on the resulting database answers 404 and changes nothing.
  The same holds for a category.
\<close>

theorem delete_then_delete_again:
  "(i \<in> set (map t_id (transactions d)) \<longrightarrow>
      DELETE_transaction None i d =
        ((JObject [(''message'', JString ''Transaction deleted successfully'')], 200),
         d\<lparr>transactions := filter (\<lambda>r. t_id r \<noteq> i) (transactions d)\<rparr>) \<and>
      i \<notin> set (map t_id (transactions (snd (DELETE_transaction None i d)))) \<and>
      DELETE_transaction None i (snd (DELETE_transaction None i d)) =
        ((JObject [(''message'', JString ''Transaction not found'')], 404),
         snd (DELETE_transaction None i d))) \<and>
   (j \<in> set (map c_id (categories d)) \<longrightarrow>
      DELETE_category None j d =
        ((JObject [(''message'', JString ''Category deleted successfully'')], 200),
         d\<lparr>categories := filter (\<lambda>r. c_id r \<noteq> j) (categories d)\<rparr>) \<and>
      j \<notin> set (map c_id (categories (snd (DELETE_category None j d)))) \<and>
      DELETE_category None j (snd (DELETE_category None j d)) =
        ((JObject [(''message'', JString ''Category not found'')], 404),
         snd (DELETE_category None j d)))"
proof (intro conjI impI)
  assume "i \<in> set (map t_id (transactions d))"
  from find_present [OF this] obtain t where
    t: "find (\<lambda>t. t_id t = i) (transactions d) = Some t" "t_id t = i"
    by blast
  then show first: "DELETE_transaction None i d =
      ((JObject [(''message'', JString ''Transaction deleted successfully'')], 200),
       d\<lparr>transactions := filter (\<lambda>r. t_id r \<noteq> i) (transactions d)\<rparr>)"
    by (simp add: DELETE_transaction_def TransactionResource_delete_def get_transaction_def
        delete_transaction_def session_defs)
  show "i \<notin> set (map t_id (transactions (snd (DELETE_transaction None i d))))"
    unfolding first by auto
  show "DELETE_transaction None i (snd (DELETE_transaction None i d)) =
      ((JObject [(''message'', JString ''Transaction not found'')], 404),
       snd (DELETE_transaction None i d))"
    unfolding first
    by (simp add: DELETE_transaction_def TransactionResource_delete_def get_transaction_def
        session_defs find_filter_removed)
next
  assume "j \<in> set (map c_id (categories d))"
  from find_present [OF this] obtain c where
    c: "find (\<lambda>c. c_id c = j) (categories d) = Some c" "c_id c = j"
    by blast
  then show first: "DELETE_category None j d =
      ((JObject [(''message'', JString ''Category deleted successfully'')], 200),
       d\<lparr>categories := filter (\<lambda>r. c_id r \<noteq> j) (categories d)\<rparr>)"
    by (simp add: DELETE_category_def CategoryResource_delete_def get_category_def
        delete_category_def session_defs)
  show "j \<notin> set (map c_id (categories (snd (DELETE_category None j d))))"
    unfolding first by auto
  show "DELETE_category None j (snd (DELETE_category None j d)) =
      ((JObject [(''message'', JString ''Category not found'')], 404),
       snd (DELETE_category None j d))"
    unfolding first
    by (simp add: DELETE_category_def CategoryResource_delete_def get_category_def
        session_defs find_filter_removed)
qed

theorem delete_then_delete_again_witness:
  "DELETE_transaction None 2
      \<lparr>transactions =
         [\<lparr>t_id = 1, description = ''Lunch'', amount = Finite 15000, category_id = 1,
            date = \<lparr>year = 2024, month = 1, day = 15\<rparr>\<rparr>,
          \<lparr>t_id = 2, description = ''Taxi'', amount = Finite 42, category_id = 1,
            date = \<lparr>year = 2024, month = 1, day = 16\<rparr>\<rparr>],
       categories = [\<lparr>c_id = 1, name = ''Food''\<rparr>], users = []\<rparr> =
     ((JObject [(''message'', JString ''Transaction deleted successfully'')], 200),
      \<lparr>transactions =
         [\<lparr>t_id = 1, description = ''Lunch'', amount = Finite 15000, category_id = 1,
            date = \<lparr>year = 2024, month = 1, day = 15\<rparr>\<rparr>],
       categories = [\<lparr>c_id = 1, name = ''Food''\<rparr>], users = []\<rparr>) \<and>
   DELETE_transaction None 2
      \<lparr>transactions =
         [\<lparr>t_id = 1, description = ''Lunch'', amount = Finite 15000, category_id = 1,
            date = \<lparr>year = 2024, month = 1, day = 15\<rparr>\<rparr>],
       categories = [\<lparr>c_id = 1, name = ''Food''\<rparr>], users = []\<rparr> =
     ((JObject [(''message'', JString ''Transaction not found'')], 404),
      \<lparr>transactions =
         [\<lparr>t_id = 1, description = ''Lunch'', amount = Finite 15000, category_id = 1,
            date = \<lparr>year = 2024, month = 1, day = 15\<rparr>\<rparr>],
       categories = [\<lparr>c_id = 1, name = ''Food''\<rparr>], users = []\<rparr>) \<and>
   DELETE_category None 1
      \<lparr>transactions =
         [\<lparr>t_id = 1, description = ''Lunch'', amount = Finite 15000, category_id = 1,
            date = \<lparr>year = 2024, month = 1, day = 15\<rparr>\<rparr>,
          \<lparr>t_id = 2, description = ''Taxi'', amount = Finite 42, category_id = 1,
            date = \<lparr>year = 2024, month = 1, day = 16\<rparr>\<rparr>],
       categories = [\<lparr>c_id = 1, name = ''Food''\<rparr>], users = []\<rparr> =
     ((JObject [(''message'', JString ''Category deleted successfully'')], 200),
      \<lparr>transactions =
         [\<lparr>t_id = 1, description = ''Lunch'', amount = Finite 15000, category_id = 1,
            date = \<lparr>year = 2024, month = 1, day = 15\<rparr>\<rparr>,
          \<lparr>t_id = 2, description = ''Taxi'', amount = Finite 42, category_id = 1,
            date = \<lparr>year = 2024, month = 1, day = 16\<rparr>\<rparr>],
       categories = [], users = []\<rparr>)"
proof -
  let ?d = "\<lparr>transactions =
         [\<lparr>t_id = 1, description = ''Lunch'', amount = Finite 15000, category_id = 1,
            date = \<lparr>year = 2024, month = 1, day = 15\<rparr>\<rparr>,
          \<lparr>t_id = 2, description = ''Taxi'', amount = Finite 42, category_id = 1,
            date = \<lparr>year = 2024, month = 1, day = 16\<rparr>\<rparr>],
       categories = [\<lparr>c_id = 1, name = ''Food''\<rparr>], users = []\<rparr>"
  show ?thesis
    using delete_then_delete_again [of 2 ?d 1] by (simp cong: conj_cong)
qed

subsection \<open>Registration\<close>








subsection \<open>Login\<close>






subsection \<open>What the requests keep true of the database\<close>

lemma map_key_update:
  "f y = k \<Longrightarrow> map f (map (\<lambda>r. if f r = k then y else r) xs) = map f xs"
  by (induction xs) auto

lemma key_of_update: "f y = k \<Longrightarrow> f (if f r = k then y else r) = f r"
  by simp

lemma wf_db_POST_transactions: "wf_db d \<Longrightarrow> wf_db (snd (POST_transactions auth body d))"
  by (auto simp: POST_transactions_def TransactionResource_post_def add_transaction_def
      session_defs wf_db_def wf_ids_snoc split: option.splits sum.splits)

lemma set_transaction_keeps:
  "map t_id (transactions (pending (set_transaction t s))) = map t_id (transactions (pending s))"
  "categories (pending (set_transaction t s)) = categories (pending s)"
  "users (pending (set_transaction t s)) = users (pending s)"
  "stored (set_transaction t s) = stored s"
  by (simp_all add: set_transaction_def map_key_update [OF refl] del: map_map)

lemma wf_db_PUT_transaction: "wf_db d \<Longrightarrow> wf_db (snd (PUT_transaction auth i body d))"
  by (auto simp: PUT_transaction_def TransactionResource_put_def get_transaction_def
      session_defs wf_db_def Let_def set_transaction_keeps
      split: option.splits sum.splits)

lemma wf_db_DELETE_transaction: "wf_db d \<Longrightarrow> wf_db (snd (DELETE_transaction auth i d))"
  by (auto simp: DELETE_transaction_def TransactionResource_delete_def get_transaction_def
      delete_transaction_def session_defs wf_db_def wf_ids_filter split: option.splits)

lemma wf_db_POST_categories: "wf_db d \<Longrightarrow> wf_db (snd (POST_categories auth body d))"
  by (auto simp: POST_categories_def CategoryResource_post_def add_category_def
      session_defs wf_db_def wf_ids_snoc split: option.splits sum.splits)

lemma wf_db_PUT_category: "wf_db d \<Longrightarrow> wf_db (snd (PUT_category auth i body d))"
  by (auto simp: PUT_category_def CategoryResource_put_def get_category_def
      set_category_def session_defs wf_db_def comp_def key_of_update
      split: option.splits sum.splits)

lemma wf_db_DELETE_category: "wf_db d \<Longrightarrow> wf_db (snd (DELETE_category auth i d))"
  by (auto simp: DELETE_category_def CategoryResource_delete_def get_category_def
      delete_category_def session_defs wf_db_def wf_ids_filter split: option.splits)

lemma wf_db_POST_register: "wf_db d \<Longrightarrow> wf_db (snd (POST_register lib body d))"
  by (auto simp: POST_register_def RegisterResource_post_def first_user_def add_user_def
      session_defs wf_db_def wf_ids_snoc split: option.splits sum.splits)

lemma reads_keep_db:
  "snd (GET_transactions auth d) = d" "snd (GET_transaction auth i d) = d"
  "snd (GET_categories auth d) = d" "snd (GET_category auth i d) = d"
  "snd (POST_login lib body d) = d"
  by (auto simp: GET_transactions_def GET_transaction_def GET_categories_def GET_category_def
      POST_login_def TransactionResource_get_def CategoryResource_get_def LoginResource_post_def
      session_defs Let_def split: option.splits sum.splits)

text \<open>
  Every request leaves the keys as the database hands them out, so every database the
  service reaches from the empty one has them.
\<close>

lemma wf_db_api: "wf_db d \<Longrightarrow> wf_db (snd (api r d))"
  by (cases r)
    (simp_all add: reads_keep_db wf_db_POST_transactions wf_db_PUT_transaction
      wf_db_DELETE_transaction wf_db_POST_categories wf_db_PUT_category wf_db_DELETE_category
      wf_db_POST_register)

lemma wf_db_run: "wf_db d \<Longrightarrow> wf_db (run rs d)"
  by (induction rs arbitrary: d) (simp_all add: wf_db_api)

lemma wf_db_reachable: "wf_db (run rs empty_db)"
  by (rule wf_db_run) (simp add: wf_db_def wf_ids_def empty_db_def)

subsection \<open>Category names\<close>

text \<open>
  C8, as stated, fails: the parser asks only that \<open>name\<close> is present, so POST and PUT store
  an empty name.
\<close>

theorem empty_category_name_is_stored:
  "POST_categories None \<lparr>body_name = Some ''''\<rparr> empty_db =
     ((JObject [(''message'', JString ''Category created successfully'')], 201),
      \<lparr>transactions = [], categories = [\<lparr>c_id = 1, name = ''''\<rparr>], users = []\<rparr>) \<and>
   PUT_category None 1 \<lparr>body_name = Some ''''\<rparr>
      \<lparr>transactions = [], categories = [\<lparr>c_id = 1, name = ''Food''\<rparr>], users = []\<rparr> =
     ((JObject [(''message'', JString ''Category updated successfully'')], 200),
      \<lparr>transactions = [], categories = [\<lparr>c_id = 1, name = ''''\<rparr>], users = []\<rparr>)"
  by (simp add: POST_categories_def PUT_category_def CategoryResource_post_def
      CategoryResource_put_def category_parser_def get_category_def add_category_def
      set_category_def session_defs empty_db_def next_id_def)

lemma names_after_api:
  "set (map name (categories (snd (api r d)))) \<subseteq>
     set (map name (categories d)) \<union> set_option (name_given r)"
proof (cases r)
  case (Post_categories auth body)
  then show ?thesis
    by (auto simp: POST_categories_def CategoryResource_post_def category_parser_def
        add_category_def session_defs split: option.splits sum.splits)
next
  case (Put_category auth i body)
  then show ?thesis
    by (auto simp: PUT_category_def CategoryResource_put_def category_parser_def
        get_category_def set_category_def session_defs split: option.splits sum.splits if_splits)
next
  case (Delete_category auth i)
  then show ?thesis
    by (auto simp: DELETE_category_def CategoryResource_delete_def get_category_def
        delete_category_def session_defs split: option.splits)
next
  case (Post_transactions auth body)
  then show ?thesis
    by (auto simp: POST_transactions_def TransactionResource_post_def add_transaction_def
        session_defs split: option.splits sum.splits)
next
  case (Put_transaction auth i body)
  then show ?thesis
    by (auto simp: PUT_transaction_def TransactionResource_put_def get_transaction_def
        set_transaction_def session_defs Let_def split: option.splits sum.splits)
next
  case (Delete_transaction auth i)
  then show ?thesis
    by (auto simp: DELETE_transaction_def TransactionResource_delete_def get_transaction_def
        delete_transaction_def session_defs split: option.splits)
next
  case (Post_register lib body)
  then show ?thesis
    by (auto simp: POST_register_def RegisterResource_post_def first_user_def add_user_def
        session_defs split: option.splits sum.splits)
qed (simp_all add: reads_keep_db)

lemma names_after_run:
  "set (map name (categories (run rs d))) \<subseteq>
     set (map name (categories d)) \<union> (\<Union>r \<in> set rs. set_option (name_given r))"
proof (induction rs arbitrary: d)
  case Nil
  then show ?case by simp
next
  case (Cons r rs)
  from Cons.IH [of "snd (api r d)"] names_after_api [of r d]
  show ?case by auto
qed

text \<open>
  C8, amended.  In every database reached from the empty one by requests to the service
  in which no category name that is given is the empty string, every stored category has
  a non-empty name: a stored name is always a name some request gave.  The handlers
  themselves do not refuse the empty name.
\<close>

theorem category_names_are_given_names:
  assumes "\<forall>r \<in> set rs. name_given r \<noteq> Some ''''"
  shows "\<forall>c \<in> set (categories (run rs empty_db)). name c \<noteq> ''''"
proof
  fix c
  assume "c \<in> set (categories (run rs empty_db))"
  then have "name c \<in> set (map name (categories (run rs empty_db)))"
    by simp
  with names_after_run [of rs empty_db] obtain r where "r \<in> set rs" "name_given r = Some (name c)"
    by (auto simp: empty_db_def)
  with assms show "name c \<noteq> ''''"
    by auto
qed

theorem category_names_are_given_names_witness:
  "list_all (\<lambda>r. name_given r \<noteq> Some [])
     [Post_categories None \<lparr>body_name = Some ''Food''\<rparr>,
      Post_categories None \<lparr>body_name = None\<rparr>,
      Put_category None 1 \<lparr>body_name = Some ''Drinks''\<rparr>,
      Post_categories None \<lparr>body_name = Some ''Rent''\<rparr>] \<and>
   categories
     (run [Post_categories None \<lparr>body_name = Some ''Food''\<rparr>,
           Post_categories None \<lparr>body_name = None\<rparr>,
           Put_category None 1 \<lparr>body_name = Some ''Drinks''\<rparr>,
           Post_categories None \<lparr>body_name = Some ''Rent''\<rparr>] empty_db) =
     [\<lparr>c_id = 1, name = ''Drinks''\<rparr>, \<lparr>c_id = 2, name = ''Rent''\<rparr>] \<and>
   list_all (\<lambda>c. name c \<noteq> [])
     (categories
       (run [Post_categories None \<lparr>body_name = Some ''Food''\<rparr>,
             Post_categories None \<lparr>body_name = None\<rparr>,
             Put_category None 1 \<lparr>body_name = Some ''Drinks''\<rparr>,
             Post_categories None \<lparr>body_name = Some ''Rent''\<rparr>] empty_db))"
proof -
  let ?rs = "[Post_categories None \<lparr>body_name = Some ''Food''\<rparr>,
           Post_categories None \<lparr>body_name = None\<rparr>,
           Put_category None 1 \<lparr>body_name = Some ''Drinks''\<rparr>,
           Post_categories None \<lparr>body_name = Some ''Rent''\<rparr>]"
  have h: "\<forall>r \<in> set ?rs. name_given r \<noteq> Some []"
    by simp
  have r: "categories (run ?rs empty_db) =
      [\<lparr>c_id = 1, name = ''Drinks''\<rparr>, \<lparr>c_id = 2, name = ''Rent''\<rparr>]"
    by (simp add: POST_categories_def PUT_category_def CategoryResource_post_def
        CategoryResource_put_def category_parser_def get_category_def add_category_def
        set_category_def session_defs empty_db_def next_id_def abort_400_def)
  from category_names_are_given_names [OF h]
  have "list_all (\<lambda>c. name c \<noteq> []) (categories (run ?rs empty_db))"
    by (simp only: list_all_iff)
  with h r show ?thesis
    by (simp add: list_all_iff)
qed

end
